theory Spec2Isabelle
  imports Main
begin

section \<open>Values, exceptions and the websocket\<close>

text \<open>
  The program is dynamically typed Python exchanging JSON documents over a websocket.
  A decoded JSON document is a value of \<open>json\<close>; a Python \<open>dict\<close> is \<open>JObj\<close> over an
  association list (insertion order kept, looked up with \<open>map_of\<close>), Python's \<open>None\<close> is
  \<open>JNull\<close>. JSON numbers are modelled as integers.
\<close>

datatype json =
    JNull
  | JBool bool
  | JInt int
  | JStr string
  | JList "json list"
  | JObj "(string \<times> json) list"

text \<open>
  Every exception the modelled code can raise. \<open>ConnectionError\<close> stands for whatever
  \<open>client.connect\<close> raises when the endpoint cannot be reached, \<open>ConnectionClosed\<close> for
  what \<open>send\<close> and \<open>recv\<close> raise once the peer is gone.
\<close>

datatype exn =
    AssertionError
  | JSONDecodeError
  | KeyError string
  | AttributeError
  | TypeError
  | ConnectionClosed
  | ConnectionError

text \<open>
  A text frame as \<open>ws.recv()\<close> returns it, abstracted to what the code observes of it:
  whether it is empty (falsy) and what \<open>json.loads\<close> makes of it.
\<close>

datatype frame =
    Frame_empty
  | Frame_invalid
  | Frame_json json

datatype event =
    Connect string
  | Send json
  | Close

text \<open>
  The connection: the frames the peer will still deliver, whether the connection is
  closed, the transport events so far, and the records given to \<open>logging.error\<close>
  (the two values formatted into \<open>Error: ..., Message: ...\<close>).
\<close>

record conn =
  ws_inbound :: "frame list"
  ws_closed :: bool
  ws_trace :: "event list"
  ws_log :: "(json \<times> json) list"

text \<open>Python truthiness, as \<open>if x\<close>, \<open>x or y\<close> and \<open>assert x\<close> test it.\<close>

fun truthy :: "json \<Rightarrow> bool" where
  "truthy JNull = False"
| "truthy (JBool b) = b"
| "truthy (JInt n) = (n \<noteq> 0)"
| "truthy (JStr s) = (s \<noteq> [])"
| "truthy (JList xs) = (xs \<noteq> [])"
| "truthy (JObj kvs) = (kvs \<noteq> [])"

fun frame_truthy :: "frame \<Rightarrow> bool" where
  "frame_truthy Frame_empty = False"
| "frame_truthy Frame_invalid = True"
| "frame_truthy (Frame_json j) = True"

fun json_loads :: "frame \<Rightarrow> exn + json" where
  "json_loads (Frame_json j) = Inr j"
| "json_loads Frame_invalid = Inl JSONDecodeError"
| "json_loads Frame_empty = Inl JSONDecodeError"

text \<open>\<open>data.get(key)\<close>: only a dict has the method; a missing key gives \<open>None\<close>.\<close>

fun py_get :: "json \<Rightarrow> string \<Rightarrow> exn + json" where
  "py_get (JObj kvs) k = (case map_of kvs k of None \<Rightarrow> Inr JNull | Some v \<Rightarrow> Inr v)"
| "py_get JNull k = Inl AttributeError"
| "py_get (JBool b) k = Inl AttributeError"
| "py_get (JInt n) k = Inl AttributeError"
| "py_get (JStr s) k = Inl AttributeError"
| "py_get (JList xs) k = Inl AttributeError"

text \<open>\<open>data[key]\<close> with a string key: \<open>KeyError\<close> on a dict without it, \<open>TypeError\<close> on
  anything that is not a dict.\<close>

fun py_getitem :: "json \<Rightarrow> string \<Rightarrow> exn + json" where
  "py_getitem (JObj kvs) k = (case map_of kvs k of None \<Rightarrow> Inl (KeyError k) | Some v \<Rightarrow> Inr v)"
| "py_getitem JNull k = Inl TypeError"
| "py_getitem (JBool b) k = Inl TypeError"
| "py_getitem (JInt n) k = Inl TypeError"
| "py_getitem (JStr s) k = Inl TypeError"
| "py_getitem (JList xs) k = Inl TypeError"

text \<open>\<open>for x in v\<close>: a list yields its items, a dict its keys, a string its characters.\<close>

fun py_iter :: "json \<Rightarrow> exn + json list" where
  "py_iter (JList xs) = Inr xs"
| "py_iter (JObj kvs) = Inr (map (\<lambda>kv. JStr (fst kv)) kvs)"
| "py_iter (JStr s) = Inr (map (\<lambda>c. JStr [c]) s)"
| "py_iter JNull = Inl TypeError"
| "py_iter (JBool b) = Inl TypeError"
| "py_iter (JInt n) = Inl TypeError"

text \<open>\<open>str(n)\<close> of an integer, as the f-string of the endpoint formats the port.\<close>

fun str_nat :: "nat \<Rightarrow> string" where
  "str_nat n =
     (if n < 10 then [''0123456789'' ! n]
      else str_nat (n div 10) @ [''0123456789'' ! (n mod 10)])"

definition str_int :: "int \<Rightarrow> string" where
  "str_int i = (if i < 0 then CHR ''-'' # str_nat (nat (- i)) else str_nat (nat i))"

definition ws_send :: "json \<Rightarrow> conn \<Rightarrow> (exn + unit) \<times> conn" where
  "ws_send msg w =
     (if ws_closed w then (Inl ConnectionClosed, w)
      else (Inr (), w\<lparr>ws_trace := ws_trace w @ [Send msg]\<rparr>))"

definition ws_recv :: "conn \<Rightarrow> (exn + frame) \<times> conn" where
  "ws_recv w =
     (case ws_inbound w of
        [] \<Rightarrow> (Inl ConnectionClosed, w\<lparr>ws_closed := True\<rparr>)
      | f # fs \<Rightarrow> (Inr f, w\<lparr>ws_inbound := fs\<rparr>))"

definition ws_close :: "conn \<Rightarrow> conn" where
  "ws_close w = w\<lparr>ws_closed := True, ws_trace := ws_trace w @ [Close]\<rparr>"

section \<open>webdriverbidi.py\<close>

text \<open>\<open>_make_command\<close>; the parameter \<open>params\<close> is \<open>JNull\<close> when the argument is omitted.\<close>

definition make_command :: "string \<Rightarrow> json \<Rightarrow> json" where
  "make_command method params =
     JObj [(''id'', JInt 1),
           (''method'', JStr method),
           (''params'', if truthy params then params else JObj [])]"

text \<open>
  \<open>_send_command\<close>. \<open>json.dumps\<close> is not modelled: the event \<open>Send\<close> carries the command
  itself. The result \<open>Inr JNull\<close> is the function's \<open>return None\<close>.
\<close>

definition send_command :: "conn \<Rightarrow> string \<Rightarrow> json \<Rightarrow> (exn + json) \<times> conn" where
  "send_command ws method params =
     (case ws_send (make_command method params) ws of
        (Inl e, w1) \<Rightarrow> (Inl e, w1)
      | (Inr u, w1) \<Rightarrow>
          (case ws_recv w1 of
             (Inl e, w2) \<Rightarrow> (Inl e, w2)
           | (Inr response, w2) \<Rightarrow>
               if frame_truthy response then
                 (case json_loads response of
                    Inl e \<Rightarrow> (Inl e, w2)
                  | Inr data \<Rightarrow>
                      (case py_get data ''type'' of
                         Inl e \<Rightarrow> (Inl e, w2)
                       | Inr t \<Rightarrow>
                           if t = JStr ''success'' then
                             (case py_getitem data ''result'' of
                                Inl e \<Rightarrow> (Inl e, w2)
                              | Inr r \<Rightarrow> (Inr r, w2))
                           else if t = JStr ''error'' then
                             (case py_getitem data ''error'' of
                                Inl e \<Rightarrow> (Inl e, w2)
                              | Inr k \<Rightarrow>
                                  (case py_getitem data ''message'' of
                                     Inl e \<Rightarrow> (Inl e, w2)
                                   | Inr m \<Rightarrow> (Inr JNull, w2\<lparr>ws_log := ws_log w2 @ [(k, m)]\<rparr>)))
                           else (Inr JNull, w2)))
               else (Inr JNull, w2)))"

text \<open>\<open>Session._new\<close>, \<open>Session._end\<close>, \<open>Session.__enter__\<close>, \<open>Session.__exit__\<close> and
  \<open>Session.__call__\<close>; the session object holds nothing but the connection.\<close>

definition session_new :: "conn \<Rightarrow> (exn + json) \<times> conn" where
  "session_new ws =
     (case send_command ws ''session.new'' (JObj [(''capabilities'', JObj [])]) of
        (Inl e, w1) \<Rightarrow> (Inl e, w1)
      | (Inr response, w1) \<Rightarrow>
          if truthy response then
            (case py_getitem response ''sessionId'' of
               Inl e \<Rightarrow> (Inl e, w1)
             | Inr sid \<Rightarrow> (Inr sid, w1))
          else (Inr JNull, w1))"

definition session_end :: "conn \<Rightarrow> (exn + bool) \<times> conn" where
  "session_end ws =
     (case send_command ws ''session.end'' (JObj []) of
        (Inl e, w1) \<Rightarrow> (Inl e, w1)
      | (Inr r, w1) \<Rightarrow> (Inr (r \<noteq> JNull), w1))"

definition session_enter :: "conn \<Rightarrow> (exn + unit) \<times> conn" where
  "session_enter ws =
     (case session_new ws of
        (Inl e, w1) \<Rightarrow> (Inl e, w1)
      | (Inr sid, w1) \<Rightarrow> if truthy sid then (Inr (), w1) else (Inl AssertionError, w1))"

definition session_exit :: "conn \<Rightarrow> (exn + unit) \<times> conn" where
  "session_exit ws =
     (case session_end ws of
        (Inl e, w1) \<Rightarrow> (Inl e, w1)
      | (Inr ok, w1) \<Rightarrow> if ok then (Inr (), w1) else (Inl AssertionError, w1))"

definition session_call :: "conn \<Rightarrow> string \<Rightarrow> json \<Rightarrow> (exn + json) \<times> conn" where
  "session_call ws method params = send_command ws method params"

text \<open>
  \<open>execute\<close>. The network \<open>net\<close> maps a URL to the frames the server behind it will
  deliver, or to \<open>None\<close> when the connection cannot be established. The two \<open>with\<close>
  blocks are written out: a failing \<open>__enter__\<close> skips the session's \<open>__exit__\<close>, the
  session's \<open>__exit__\<close> runs after the call whether it returned or raised, an exception
  of \<open>__exit__\<close> replaces the outcome of the body, and the connection is closed on every
  path. Neither context manager suppresses an exception, so the final \<open>return None\<close> of
  the source is never reached.
\<close>

definition endpoint :: "int \<Rightarrow> string" where
  "endpoint port = ''ws://localhost:'' @ str_int port @ ''/session''"

definition connect :: "string \<Rightarrow> frame list \<Rightarrow> conn" where
  "connect url frames =
     \<lparr>ws_inbound = frames, ws_closed = False, ws_trace = [Connect url], ws_log = []\<rparr>"

definition refused :: "string \<Rightarrow> conn" where
  "refused url = \<lparr>ws_inbound = [], ws_closed = True, ws_trace = [Connect url], ws_log = []\<rparr>"

definition execute ::
  "(string \<Rightarrow> frame list option) \<Rightarrow> int \<Rightarrow> string \<Rightarrow> json \<Rightarrow> (exn + json) \<times> conn" where
  "execute net port method params =
     (case net (endpoint port) of
        None \<Rightarrow> (Inl ConnectionError, refused (endpoint port))
      | Some frames \<Rightarrow>
          (case session_enter (connect (endpoint port) frames) of
             (Inl e, w1) \<Rightarrow> (Inl e, ws_close w1)
           | (Inr u, w1) \<Rightarrow>
               (case session_call w1 method params of
                  (res, w2) \<Rightarrow>
                    (case session_exit w2 of
                       (Inl e, w3) \<Rightarrow> (Inl e, ws_close w3)
                     | (Inr v, w3) \<Rightarrow> (res, ws_close w3)))))"

section \<open>tab.py and browser.py\<close>

text \<open>
  The fields \<open>port\<close>, \<open>id\<close> and \<open>url\<close> of \<open>Tab\<close>; \<open>id\<close> and \<open>url\<close> hold whatever value the
  reply carried, since Python does not enforce the annotation \<open>str\<close>.
\<close>

record tab =
  tab_port :: int
  tab_id :: json
  tab_url :: json

record browser =
  browser_port :: int

text \<open>\<open>Tab.navigate\<close> and \<open>Tab.reload\<close> return their result and the tab after the call.\<close>

definition navigate ::
  "(string \<Rightarrow> frame list option) \<Rightarrow> tab \<Rightarrow> string \<Rightarrow> (exn + bool) \<times> tab" where
  "navigate net self url =
     (case fst (execute net (tab_port self) ''browsingContext.navigate''
                  (JObj [(''url'', JStr url), (''context'', tab_id self),
                         (''wait'', JStr ''complete'')])) of
        Inl e \<Rightarrow> (Inl e, self)
      | Inr result \<Rightarrow>
          if truthy result then
            (case py_getitem result ''url'' of
               Inl e \<Rightarrow> (Inl e, self)
             | Inr v \<Rightarrow> (Inr True, self\<lparr>tab_url := v\<rparr>))
          else (Inr False, self))"

definition reload :: "(string \<Rightarrow> frame list option) \<Rightarrow> tab \<Rightarrow> (exn + bool) \<times> tab" where
  "reload net self =
     (case fst (execute net (tab_port self) ''browsingContext.reload''
                  (JObj [(''context'', tab_id self), (''wait'', JStr ''complete'')])) of
        Inl e \<Rightarrow> (Inl e, self)
      | Inr response \<Rightarrow>
          if truthy response then
            (case py_getitem response ''url'' of
               Inl e \<Rightarrow> (Inl e, self)
             | Inr v \<Rightarrow> (Inr True, self\<lparr>tab_url := v\<rparr>))
          else (Inr False, self))"

text \<open>The list comprehension of \<open>Browser.get_tabs\<close>: the first failing item ends it.\<close>

fun tabs_of :: "int \<Rightarrow> json list \<Rightarrow> exn + tab list" where
  "tabs_of p [] = Inr []"
| "tabs_of p (c # cs) =
     (case py_getitem c ''context'' of
        Inl e \<Rightarrow> Inl e
      | Inr i \<Rightarrow>
          (case py_getitem c ''url'' of
             Inl e \<Rightarrow> Inl e
           | Inr u \<Rightarrow>
               (case tabs_of p cs of
                  Inl e \<Rightarrow> Inl e
                | Inr ts \<Rightarrow> Inr (\<lparr>tab_port = p, tab_id = i, tab_url = u\<rparr> # ts))))"

definition get_tabs :: "(string \<Rightarrow> frame list option) \<Rightarrow> browser \<Rightarrow> exn + tab list" where
  "get_tabs net self =
     (case fst (execute net (browser_port self) ''browsingContext.getTree''
                  (JObj [(''maxDepth'', JInt 1)])) of
        Inl e \<Rightarrow> Inl e
      | Inr response \<Rightarrow>
          if truthy response then
            (case py_getitem response ''contexts'' of
               Inl e \<Rightarrow> Inl e
             | Inr contexts \<Rightarrow>
                 (case py_iter contexts of
                    Inl e \<Rightarrow> Inl e
                  | Inr cs \<Rightarrow> tabs_of (browser_port self) cs))
          else Inr [])"

definition create_tab :: "(string \<Rightarrow> frame list option) \<Rightarrow> browser \<Rightarrow> exn + tab option" where
  "create_tab net self =
     (case fst (execute net (browser_port self) ''browsingContext.create''
                  (JObj [(''type'', JStr ''tab'')])) of
        Inl e \<Rightarrow> Inl e
      | Inr context \<Rightarrow>
          if truthy context then
            (case py_getitem context ''context'' of
               Inl e \<Rightarrow> Inl e
             | Inr i \<Rightarrow> Inr (Some \<lparr>tab_port = browser_port self, tab_id = i, tab_url = JStr []\<rparr>))
          else Inr None)"

section \<open>Observations and the endpoint of the specification\<close>

text \<open>The URLs a sequence of events connected to.\<close>

fun connections :: "event list \<Rightarrow> string list" where
  "connections [] = []"
| "connections (Connect u # es) = u # connections es"
| "connections (Send j # es) = connections es"
| "connections (Close # es) = connections es"

text \<open>The endpoint as the specification words it, \<open>ws://<host>:<port>/session\<close>.\<close>

definition spec_endpoint :: "string \<Rightarrow> int \<Rightarrow> string" where
  "spec_endpoint host port = ''ws://'' @ host @ '':'' @ str_int port @ ''/session''"

section \<open>Scenarios\<close>

text \<open>
  Concrete replies and a server listening on port 9222 of the local host, on which the
  theorems below are evaluated: the server delivers the given frames, one per command.
\<close>

definition session_created :: frame where
  "session_created =
     Frame_json (JObj [(''type'', JStr ''success''),
                       (''result'', JObj [(''sessionId'', JStr ''s1''),
                                          (''capabilities'', JObj [])])])"

definition session_ended :: frame where
  "session_ended = Frame_json (JObj [(''type'', JStr ''success''), (''result'', JObj [])])"

definition error_reply :: frame where
  "error_reply =
     Frame_json (JObj [(''type'', JStr ''error''),
                       (''error'', JStr ''no such frame''),
                       (''message'', JStr ''context not found'')])"

definition success_reply :: "json \<Rightarrow> frame" where
  "success_reply r = Frame_json (JObj [(''type'', JStr ''success''), (''result'', r)])"

definition server :: "frame list \<Rightarrow> string \<Rightarrow> frame list option" where
  "server frames url = (if url = ''ws://localhost:9222/session'' then Some frames else None)"

definition entered :: "frame list \<Rightarrow> conn" where
  "entered fs =
     \<lparr>ws_inbound = fs, ws_closed = False,
      ws_trace = [Connect (endpoint 9222),
                  Send (make_command ''session.new'' (JObj [(''capabilities'', JObj [])]))],
      ws_log = []\<rparr>"

section \<open>Properties of \<open>_send_command\<close> and of the session\<close>

lemma send_command_closed:
  "ws_closed w \<Longrightarrow> send_command w m p = (Inl ConnectionClosed, w)"
  by (simp add: send_command_def ws_send_def)

lemma send_command_trace:
  "\<not> ws_closed w \<Longrightarrow>
   ws_trace (snd (send_command w m p)) = ws_trace w @ [Send (make_command m p)]"
  by (simp add: send_command_def ws_send_def ws_recv_def
      split: list.splits sum.splits option.splits)

lemma send_command_inbound:
  "\<not> ws_closed w \<Longrightarrow> ws_inbound (snd (send_command w m p)) = tl (ws_inbound w)"
  by (simp add: send_command_def ws_send_def ws_recv_def
      split: list.splits sum.splits option.splits)

lemma send_command_closed_after:
  "\<not> ws_closed w \<Longrightarrow> ws_closed (snd (send_command w m p)) = (ws_inbound w = [])"
  by (simp add: send_command_def ws_send_def ws_recv_def
      split: list.splits sum.splits option.splits)

lemma send_command_returns:
  "fst (send_command w m p) = Inr r \<Longrightarrow> \<not> ws_closed w \<and> ws_inbound w \<noteq> []"
  by (auto simp add: send_command_def ws_send_def ws_recv_def
      split: list.splits sum.splits option.splits if_splits)

lemma send_command_log_present:
  "fst (send_command w m p) = Inr r \<Longrightarrow> r \<noteq> JNull \<Longrightarrow>
   ws_log (snd (send_command w m p)) = ws_log w"
  by (auto simp add: send_command_def ws_send_def ws_recv_def
      split: list.splits sum.splits option.splits if_splits)

text \<open>What \<open>_send_command\<close> does on each kind of reply, on an open connection.\<close>

lemma send_command_success:
  assumes "\<not> ws_closed w" and "ws_inbound w = Frame_json (JObj env) # rest"
    and "map_of env ''type'' = Some (JStr ''success'')" and "map_of env ''result'' = Some R"
  shows "send_command w m p =
    (Inr R, w\<lparr>ws_inbound := rest, ws_trace := ws_trace w @ [Send (make_command m p)]\<rparr>)"
  using assms by (simp add: send_command_def ws_send_def ws_recv_def)

lemma send_command_error:
  assumes "\<not> ws_closed w" and "ws_inbound w = Frame_json (JObj env) # rest"
    and "map_of env ''type'' = Some (JStr ''error'')"
    and "map_of env ''error'' = Some k" and "map_of env ''message'' = Some msg"
  shows "send_command w m p =
    (Inr JNull, w\<lparr>ws_inbound := rest, ws_trace := ws_trace w @ [Send (make_command m p)],
                  ws_log := ws_log w @ [(k, msg)]\<rparr>)"
  using assms by (simp add: send_command_def ws_send_def ws_recv_def)

lemma send_command_undiscriminated:
  assumes "\<not> ws_closed w" and "ws_inbound w = Frame_json (JObj env) # rest"
    and "map_of env ''type'' \<noteq> Some (JStr ''success'')"
    and "map_of env ''type'' \<noteq> Some (JStr ''error'')"
  shows "send_command w m p =
    (Inr JNull, w\<lparr>ws_inbound := rest, ws_trace := ws_trace w @ [Send (make_command m p)]\<rparr>)"
  using assms by (simp add: send_command_def ws_send_def ws_recv_def split: option.splits)

lemma send_command_invalid:
  assumes "\<not> ws_closed w" and "ws_inbound w = Frame_invalid # rest"
  shows "send_command w m p =
    (Inl JSONDecodeError,
     w\<lparr>ws_inbound := rest, ws_trace := ws_trace w @ [Send (make_command m p)]\<rparr>)"
  using assms by (simp add: send_command_def ws_send_def ws_recv_def)

lemma send_command_empty:
  assumes "\<not> ws_closed w" and "ws_inbound w = Frame_empty # rest"
  shows "send_command w m p =
    (Inr JNull, w\<lparr>ws_inbound := rest, ws_trace := ws_trace w @ [Send (make_command m p)]\<rparr>)"
  using assms by (simp add: send_command_def ws_send_def ws_recv_def)

text \<open>A session that was entered, or left, without an exception.\<close>

lemma session_enter_ok:
  assumes "session_enter w = (Inr u, w1)"
  shows "\<not> ws_closed w1" and "ws_log w1 = ws_log w" and "ws_inbound w1 = tl (ws_inbound w)"
    and "ws_trace w1 =
         ws_trace w @ [Send (make_command ''session.new'' (JObj [(''capabilities'', JObj [])]))]"
proof -
  obtain r where r: "send_command w ''session.new'' (JObj [(''capabilities'', JObj [])]) = (Inr r, w1)"
    and t: "truthy r"
    using assms
    by (auto simp add: session_enter_def session_new_def split: prod.splits sum.splits if_splits)
  have f: "fst (send_command w ''session.new'' (JObj [(''capabilities'', JObj [])])) = Inr r"
    and s: "snd (send_command w ''session.new'' (JObj [(''capabilities'', JObj [])])) = w1"
    using r by simp_all
  have o: "\<not> ws_closed w" "ws_inbound w \<noteq> []"
    using send_command_returns [OF f] by simp_all
  have n: "r \<noteq> JNull" using t by auto
  show "\<not> ws_closed w1" using send_command_closed_after [OF o(1)] o(2) s by metis
  show "ws_log w1 = ws_log w" using send_command_log_present [OF f n] s by simp
  show "ws_inbound w1 = tl (ws_inbound w)" using send_command_inbound [OF o(1)] s by metis
  show "ws_trace w1 =
         ws_trace w @ [Send (make_command ''session.new'' (JObj [(''capabilities'', JObj [])]))]"
    using send_command_trace [OF o(1)] s by metis
qed

lemma session_exit_ok:
  assumes "fst (session_exit w) = Inr u"
  shows "ws_log (snd (session_exit w)) = ws_log w"
proof -
  obtain r where f: "fst (send_command w ''session.end'' (JObj [])) = Inr r"
    and n: "r \<noteq> JNull"
    and s: "snd (session_exit w) = snd (send_command w ''session.end'' (JObj []))"
    using assms
    by (auto simp add: session_exit_def session_end_def split: prod.splits sum.splits if_splits)
  show ?thesis using send_command_log_present [OF f n] s by simp
qed

text \<open>\<open>execute\<close> around a session that opens and ends: the outcome is the call's.\<close>

lemma execute_in_session:
  assumes "net (endpoint port) = Some frames"
    and "session_enter (connect (endpoint port) frames) = (Inr u, w1)"
    and "fst (session_exit (snd (session_call w1 method params))) = Inr v"
  shows "fst (execute net port method params) = fst (session_call w1 method params)"
    and "ws_log (snd (execute net port method params)) =
         ws_log (snd (session_call w1 method params))"
  using assms session_exit_ok [OF assms(3)]
  by (auto simp add: execute_def ws_close_def split: prod.splits sum.splits)

text \<open>The connection after \<open>__enter__\<close> and \<open>__exit__\<close>, whatever their outcome.\<close>

lemma send_command_trace_any:
  "ws_trace (snd (send_command w m p)) =
     (if ws_closed w then ws_trace w else ws_trace w @ [Send (make_command m p)])"
  by (simp add: send_command_closed send_command_trace)

lemma session_enter_snd:
  "snd (session_enter w) =
     snd (send_command w ''session.new'' (JObj [(''capabilities'', JObj [])]))"
  by (cases "send_command w ''session.new'' (JObj [(''capabilities'', JObj [])])")
    (auto simp add: session_enter_def session_new_def split: sum.splits)

lemma session_exit_snd:
  "snd (session_exit w) = snd (send_command w ''session.end'' (JObj []))"
  by (cases "send_command w ''session.end'' (JObj [])")
    (auto simp add: session_exit_def session_end_def split: sum.splits)

lemma execute_snd:
  assumes "net (endpoint port) = Some frames"
  shows "snd (execute net port method params) =
     (case fst (session_enter (connect (endpoint port) frames)) of
        Inl e \<Rightarrow> ws_close (snd (session_enter (connect (endpoint port) frames)))
      | Inr u \<Rightarrow>
          ws_close (snd (session_exit (snd (session_call
            (snd (session_enter (connect (endpoint port) frames))) method params)))))"
  using assms by (auto simp add: execute_def split: prod.splits sum.splits)

text \<open>The events of a call of \<open>execute\<close>, by how far the call gets.\<close>

lemma execute_trace_refused:
  "net (endpoint port) = None \<Longrightarrow>
   ws_trace (snd (execute net port method params)) = [Connect (endpoint port)]"
  by (simp add: execute_def refused_def)

lemma session_enter_trace:
  "ws_trace (snd (session_enter (connect u fs))) =
     [Connect u, Send (make_command ''session.new'' (JObj [(''capabilities'', JObj [])]))]"
  by (simp add: session_enter_snd send_command_trace_any connect_def)

lemma execute_trace_failed:
  assumes "net (endpoint port) = Some fs"
    and "fst (session_enter (connect (endpoint port) fs)) = Inl x"
  shows "ws_trace (snd (execute net port method params)) =
     [Connect (endpoint port),
      Send (make_command ''session.new'' (JObj [(''capabilities'', JObj [])])),
      Close]"
  using assms session_enter_trace [of "endpoint port" fs]
  by (simp add: execute_snd ws_close_def)

lemma execute_trace_opened:
  assumes n: "net (endpoint port) = Some fs"
    and en: "session_enter (connect (endpoint port) fs) = (Inr (), w)"
  shows "ws_trace (snd (execute net port method params)) =
     [Connect (endpoint port),
      Send (make_command ''session.new'' (JObj [(''capabilities'', JObj [])])),
      Send (make_command method params)]
     @ (if ws_inbound w = [] then [] else [Send (make_command ''session.end'' (JObj []))])
     @ [Close]"
proof -
  let ?u = "endpoint port"
  let ?new = "Send (make_command ''session.new'' (JObj [(''capabilities'', JObj [])]))"
  let ?m = "Send (make_command method params)"
  let ?end = "Send (make_command ''session.end'' (JObj []))"
  have o: "\<not> ws_closed w" using session_enter_ok(1) [OF en] .
  have t1: "ws_trace w = [Connect ?u, ?new]" using session_enter_trace [of ?u fs] en by simp
  let ?w2 = "snd (session_call w method params)"
  have t2: "ws_trace ?w2 = [Connect ?u, ?new, ?m]"
    using o t1 by (simp add: session_call_def send_command_trace)
  have c2: "ws_closed ?w2 = (ws_inbound w = [])"
    using send_command_closed_after [OF o] by (simp add: session_call_def)
  have "ws_trace (snd (session_exit ?w2)) =
      [Connect ?u, ?new, ?m] @ (if ws_inbound w = [] then [] else [?end])"
    using t2 c2 by (simp add: session_exit_snd send_command_trace_any)
  then show ?thesis using n en by (simp add: execute_snd ws_close_def)
qed

text \<open>The comprehension of \<open>get_tabs\<close> over items that all have a context and a url.\<close>

lemma tabs_of_complete:
  "list_all (\<lambda>c. \<exists>i u. py_getitem c ''context'' = Inr i \<and> py_getitem c ''url'' = Inr u) cs
   \<Longrightarrow> \<exists>tabs. tabs_of p cs = Inr tabs
        \<and> list_all2 (\<lambda>c t. py_getitem c ''context'' = Inr (tab_id t)
                          \<and> py_getitem c ''url'' = Inr (tab_url t) \<and> tab_port t = p) cs tabs"
proof (induction cs)
  case Nil
  then show ?case by simp
next
  case (Cons c cs)
  then obtain i u where c: "py_getitem c ''context'' = Inr i" "py_getitem c ''url'' = Inr u"
    by auto
  obtain tabs where t: "tabs_of p cs = Inr tabs"
    "list_all2 (\<lambda>c t. py_getitem c ''context'' = Inr (tab_id t)
                          \<and> py_getitem c ''url'' = Inr (tab_url t) \<and> tab_port t = p) cs tabs"
    using Cons by auto
  show ?case using c t by simp
qed

text \<open>The scenario server: the connection once its session is created, and its end.\<close>

lemma scenario_server: "server frames (endpoint 9222) = Some frames"
  by (simp add: server_def endpoint_def str_int_def)

lemma scenario_enter:
  "session_enter (connect (endpoint 9222) (session_created # fs)) = (Inr (), entered fs)"
  by (simp add: session_enter_def session_new_def send_command_def ws_send_def ws_recv_def
      connect_def session_created_def entered_def)

lemma scenario_exit:
  "fst (session_exit (snd (session_call (entered [f, session_ended]) m p))) = Inr ()"
  by (cases f)
    (simp_all add: session_exit_def session_end_def session_call_def send_command_def
      ws_send_def ws_recv_def session_ended_def entered_def
      split: sum.splits prod.splits)

section \<open>The command envelope\<close>

text \<open>
  C6. For every method name and every parameters mapping, the outbound command is exactly
  the dict with \<open>id\<close> 1, the method string and the parameters mapping as given; with the
  parameters omitted (\<open>None\<close>) the command carries the empty mapping. The identifier is
  the constant 1 in both cases.
\<close>

theorem make_command_envelope:
  "make_command method (JObj kvs) =
     JObj [(''id'', JInt 1), (''method'', JStr method), (''params'', JObj kvs)]
   \<and> make_command method JNull =
     JObj [(''id'', JInt 1), (''method'', JStr method), (''params'', JObj [])]"
  by (cases kvs) (simp_all add: make_command_def)

text \<open>
  C7. Round trip: sending a command with the parameters
  \<open>{"context": "abc", "url": "https://x"}\<close> on a connection whose peer answers with the
  success envelope \<open>{"type": "success", "result": {"url": "https://x"}}\<close> puts exactly the
  encoded command on the wire and returns the result \<open>{"url": "https://x"}\<close>, with
  nothing logged.
\<close>

theorem send_command_round_trip:
  "send_command
     \<lparr>ws_inbound = [Frame_json (JObj [(''type'', JStr ''success''),
                                      (''result'', JObj [(''url'', JStr ''https://x'')])])],
      ws_closed = False, ws_trace = [], ws_log = []\<rparr>
     method (JObj [(''context'', JStr ''abc''), (''url'', JStr ''https://x'')])
   = (Inr (JObj [(''url'', JStr ''https://x'')]),
      \<lparr>ws_inbound = [], ws_closed = False,
       ws_trace = [Send (JObj [(''id'', JInt 1), (''method'', JStr method),
                               (''params'', JObj [(''context'', JStr ''abc''),
                                                  (''url'', JStr ''https://x'')])])],
       ws_log = []\<rparr>)"
  by (simp add: send_command_def ws_send_def ws_recv_def make_command_def)

section \<open>Results of \<open>execute\<close>\<close>

text \<open>
  C1. Whenever the session is created, the server's reply to the method is a success
  envelope \<open>{"type": "success", "result": R}\<close> and the session is ended without failure,
  \<open>execute\<close> returns exactly \<open>R\<close>.
\<close>

theorem execute_returns_success_result:
  assumes "net (endpoint port) = Some frames"
    and "session_enter (connect (endpoint port) frames) = (Inr (), w1)"
    and "ws_inbound w1 = Frame_json (JObj env) # rest"
    and "map_of env ''type'' = Some (JStr ''success'')"
    and "map_of env ''result'' = Some R"
    and "fst (session_exit (snd (session_call w1 method params))) = Inr ()"
  shows "fst (execute net port method params) = Inr R"
proof -
  have "\<not> ws_closed w1" using session_enter_ok(1) [OF assms(2)] .
  then have "fst (session_call w1 method params) = Inr R"
    using assms(3-5) by (simp add: session_call_def send_command_success)
  then show ?thesis using execute_in_session(1) [where net = net, OF assms(1,2,6)] by simp
qed

theorem execute_returns_success_result_witness:
  "server [session_created, success_reply (JObj [(''context'', JStr ''ctx-1'')]), session_ended]
     (endpoint 9222)
   = Some [session_created, success_reply (JObj [(''context'', JStr ''ctx-1'')]), session_ended]
   \<and> fst (session_enter (connect (endpoint 9222)
       [session_created, success_reply (JObj [(''context'', JStr ''ctx-1'')]), session_ended]))
     = Inr ()
   \<and> fst (execute
       (server [session_created, success_reply (JObj [(''context'', JStr ''ctx-1'')]),
                session_ended])
       9222 ''browsingContext.create'' (JObj [(''type'', JStr ''tab'')]))
     = Inr (JObj [(''context'', JStr ''ctx-1'')])"
proof -
  let ?reply = "success_reply (JObj [(''context'', JStr ''ctx-1'')])"
  let ?frames = "[session_created, ?reply, session_ended]"
  let ?w1 = "\<lparr>ws_inbound = [?reply, session_ended], ws_closed = False,
     ws_trace = [Connect (endpoint 9222),
                 Send (make_command ''session.new'' (JObj [(''capabilities'', JObj [])]))],
     ws_log = []\<rparr>"
  have h1: "server ?frames (endpoint 9222) = Some ?frames"
    by (simp add: server_def endpoint_def str_int_def)
  have h2: "session_enter (connect (endpoint 9222) ?frames) = (Inr (), ?w1)"
    by (simp add: session_enter_def session_new_def send_command_def ws_send_def ws_recv_def
        connect_def session_created_def)
  have h3: "ws_inbound ?w1 =
      Frame_json (JObj [(''type'', JStr ''success''),
                        (''result'', JObj [(''context'', JStr ''ctx-1'')])])
      # [session_ended]"
    by (simp add: success_reply_def)
  have h6: "fst (session_exit (snd (session_call ?w1 ''browsingContext.create''
                 (JObj [(''type'', JStr ''tab'')])))) = Inr ()"
    by (simp add: session_exit_def session_end_def session_call_def send_command_def
        ws_send_def ws_recv_def success_reply_def session_ended_def)
  have "fst (execute (server ?frames) 9222 ''browsingContext.create''
          (JObj [(''type'', JStr ''tab'')])) = Inr (JObj [(''context'', JStr ''ctx-1'')])"
    by (rule execute_returns_success_result [where net = "server ?frames", OF h1 h2 h3 _ _ h6])
      simp_all
  then show ?thesis using h1 h2 by simp
qed

text \<open>
  C2. As stated the claim fails: a reply to the method that is not valid JSON makes
  \<open>json.loads\<close> raise, and the exception leaves \<open>execute\<close> with nothing logged.
\<close>

theorem execute_invalid_reply_raises:
  "fst (execute (server [session_created, Frame_invalid, session_ended]) 9222
          ''browsingContext.navigate'' (JObj [(''url'', JStr ''https://x'')]))
     = Inl JSONDecodeError
   \<and> ws_log (snd (execute (server [session_created, Frame_invalid, session_ended]) 9222
          ''browsingContext.navigate'' (JObj [(''url'', JStr ''https://x'')]))) = []"
  by (simp add: execute_def session_enter_def session_new_def session_call_def
      session_exit_def session_end_def send_command_def ws_send_def ws_recv_def ws_close_def
      connect_def server_def endpoint_def str_int_def session_created_def session_ended_def)

text \<open>
  C2, amended. In a session that is created and ended without failure: a well-formed error
  envelope in reply to the method makes \<open>execute\<close> return \<open>None\<close> and log exactly one
  record, holding the envelope's error kind and message; a JSON object whose \<open>type\<close> is
  neither \<open>success\<close> nor \<open>error\<close>, and an empty frame, make it return \<open>None\<close> with
  nothing logged; a reply that is not valid JSON makes it raise the decoding error, with
  nothing logged.
\<close>

theorem execute_failed_reply:
  assumes "net (endpoint port) = Some frames"
    and "session_enter (connect (endpoint port) frames) = (Inr (), w1)"
    and "ws_inbound w1 = f # rest"
    and "fst (session_exit (snd (session_call w1 method params))) = Inr ()"
  shows
    "(f = Frame_json (JObj env) \<and> map_of env ''type'' = Some (JStr ''error'')
        \<and> map_of env ''error'' = Some k \<and> map_of env ''message'' = Some msg
      \<longrightarrow> fst (execute net port method params) = Inr JNull
          \<and> ws_log (snd (execute net port method params)) = [(k, msg)])
   \<and> (f = Frame_json (JObj env) \<and> map_of env ''type'' \<noteq> Some (JStr ''success'')
        \<and> map_of env ''type'' \<noteq> Some (JStr ''error'')
      \<longrightarrow> fst (execute net port method params) = Inr JNull
          \<and> ws_log (snd (execute net port method params)) = [])
   \<and> (f = Frame_empty
      \<longrightarrow> fst (execute net port method params) = Inr JNull
          \<and> ws_log (snd (execute net port method params)) = [])
   \<and> (f = Frame_invalid
      \<longrightarrow> fst (execute net port method params) = Inl JSONDecodeError
          \<and> ws_log (snd (execute net port method params)) = [])"
proof -
  have o: "\<not> ws_closed w1" using session_enter_ok(1) [OF assms(2)] .
  have l: "ws_log w1 = []" using session_enter_ok(2) [OF assms(2)] by (simp add: connect_def)
  note ex = execute_in_session [where net = net, OF assms(1,2,4)]
  show ?thesis
    using o l assms(3) ex
    by (auto simp add: session_call_def send_command_error send_command_undiscriminated
        send_command_empty send_command_invalid)
qed

theorem execute_failed_reply_witness:
  "fst (execute (server [session_created, error_reply, session_ended]) 9222
          ''browsingContext.navigate'' (JObj [(''url'', JStr ''https://x'')])) = Inr JNull
   \<and> ws_log (snd (execute (server [session_created, error_reply, session_ended]) 9222
          ''browsingContext.navigate'' (JObj [(''url'', JStr ''https://x'')])))
     = [(JStr ''no such frame'', JStr ''context not found'')]
   \<and> fst (execute (server [session_created, Frame_json (JObj [(''type'', JStr ''event'')]),
                            session_ended]) 9222
          ''browsingContext.navigate'' (JObj [(''url'', JStr ''https://x'')])) = Inr JNull
   \<and> ws_log (snd (execute (server [session_created,
                                    Frame_json (JObj [(''type'', JStr ''event'')]),
                                    session_ended]) 9222
          ''browsingContext.navigate'' (JObj [(''url'', JStr ''https://x'')]))) = []
   \<and> fst (execute (server [session_created, Frame_empty, session_ended]) 9222
          ''browsingContext.navigate'' (JObj [(''url'', JStr ''https://x'')])) = Inr JNull
   \<and> fst (execute (server [session_created, Frame_invalid, session_ended]) 9222
          ''browsingContext.navigate'' (JObj [(''url'', JStr ''https://x'')]))
     = Inl JSONDecodeError"
proof -
  let ?m = "''browsingContext.navigate''"
  let ?p = "JObj [(''url'', JStr ''https://x'')]"
  let ?ev = "Frame_json (JObj [(''type'', JStr ''event'')])"
  have x: "\<And>f. fst (session_exit (snd (session_call (entered [f, session_ended]) ?m ?p)))
             = Inr ()"
    by (simp add: scenario_exit)
  have a: "fst (execute (server [session_created, error_reply, session_ended]) 9222 ?m ?p)
             = Inr JNull
           \<and> ws_log (snd (execute (server [session_created, error_reply, session_ended])
                              9222 ?m ?p))
             = [(JStr ''no such frame'', JStr ''context not found'')]"
    using execute_failed_reply [where net = "server [session_created, error_reply, session_ended]"
        and f = error_reply and rest = "[session_ended]"
        and env = "[(''type'', JStr ''error''), (''error'', JStr ''no such frame''),
                    (''message'', JStr ''context not found'')]"
        and k = "JStr ''no such frame''" and msg = "JStr ''context not found''",
        OF scenario_server scenario_enter _ x]
    by (simp add: entered_def error_reply_def)
  have b: "fst (execute (server [session_created, ?ev, session_ended]) 9222 ?m ?p) = Inr JNull
           \<and> ws_log (snd (execute (server [session_created, ?ev, session_ended]) 9222 ?m ?p))
             = []"
    using execute_failed_reply [where net = "server [session_created, ?ev, session_ended]"
        and f = ?ev and rest = "[session_ended]" and env = "[(''type'', JStr ''event'')]",
        OF scenario_server scenario_enter _ x]
    by (simp add: entered_def)
  have c: "fst (execute (server [session_created, Frame_empty, session_ended]) 9222 ?m ?p)
             = Inr JNull"
    using execute_failed_reply [where net = "server [session_created, Frame_empty, session_ended]"
        and f = Frame_empty and rest = "[session_ended]",
        OF scenario_server scenario_enter _ x]
    by (simp add: entered_def)
  have d: "fst (execute (server [session_created, Frame_invalid, session_ended]) 9222 ?m ?p)
             = Inl JSONDecodeError"
    using execute_failed_reply [where net = "server [session_created, Frame_invalid, session_ended]"
        and f = Frame_invalid and rest = "[session_ended]",
        OF scenario_server scenario_enter _ x]
    by (simp add: entered_def)
  show ?thesis using a b c d by simp
qed

section \<open>The session lifecycle\<close>

text \<open>
  C3. If the command \<open>session.new\<close> is answered by an error envelope, or \<open>_send_command\<close>
  returns no usable (a falsy) result for it, \<open>execute\<close> raises \<open>AssertionError\<close>, having
  sent nothing but \<open>session.new\<close> before closing the connection: no retry, no method, no
  \<open>session.end\<close>. If the session is created and the command \<open>session.end\<close> is answered by
  an error envelope, or \<open>_send_command\<close> returns \<open>None\<close> for it, \<open>execute\<close> raises
  \<open>AssertionError\<close> whatever the method's outcome was, having sent each of the three
  commands once.
\<close>

theorem lifecycle_failure_is_fatal:
  assumes "net (endpoint port) = Some frames"
  shows
    "((frames = Frame_json (JObj env) # rest \<and> map_of env ''type'' = Some (JStr ''error'')
         \<and> map_of env ''error'' = Some k \<and> map_of env ''message'' = Some msg)
       \<or> (fst (send_command (connect (endpoint port) frames) ''session.new''
                 (JObj [(''capabilities'', JObj [])])) = Inr r \<and> \<not> truthy r)
      \<longrightarrow> fst (execute net port method params) = Inl AssertionError
          \<and> ws_trace (snd (execute net port method params)) =
              [Connect (endpoint port),
               Send (make_command ''session.new'' (JObj [(''capabilities'', JObj [])])),
               Close])
   \<and> (session_enter (connect (endpoint port) frames) = (Inr (), wn)
       \<and> ((ws_inbound wn = f # Frame_json (JObj env) # rest
             \<and> map_of env ''type'' = Some (JStr ''error'')
             \<and> map_of env ''error'' = Some k \<and> map_of env ''message'' = Some msg)
           \<or> fst (send_command (snd (session_call wn method params)) ''session.end''
                   (JObj [])) = Inr JNull)
      \<longrightarrow> fst (execute net port method params) = Inl AssertionError
          \<and> ws_trace (snd (execute net port method params)) =
              [Connect (endpoint port),
               Send (make_command ''session.new'' (JObj [(''capabilities'', JObj [])])),
               Send (make_command method params),
               Send (make_command ''session.end'' (JObj [])),
               Close])"
proof (intro conjI impI)
  let ?w0 = "connect (endpoint port) frames"
  let ?caps = "JObj [(''capabilities'', JObj [])]"
  assume a: "(frames = Frame_json (JObj env) # rest \<and> map_of env ''type'' = Some (JStr ''error'')
         \<and> map_of env ''error'' = Some k \<and> map_of env ''message'' = Some msg)
       \<or> (fst (send_command ?w0 ''session.new'' ?caps) = Inr r \<and> \<not> truthy r)"
  have o: "\<not> ws_closed ?w0" by (simp add: connect_def)
  have "\<exists>r'. fst (send_command ?w0 ''session.new'' ?caps) = Inr r' \<and> \<not> truthy r'"
  proof (rule disjE [OF a])
    assume e: "frames = Frame_json (JObj env) # rest \<and> map_of env ''type'' = Some (JStr ''error'')
         \<and> map_of env ''error'' = Some k \<and> map_of env ''message'' = Some msg"
    then have i: "ws_inbound ?w0 = Frame_json (JObj env) # rest" by (simp add: connect_def)
    have "fst (send_command ?w0 ''session.new'' ?caps) = Inr JNull"
      using send_command_error [OF o i] e by simp
    then show ?thesis by auto
  next
    assume "fst (send_command ?w0 ''session.new'' ?caps) = Inr r \<and> \<not> truthy r"
    then show ?thesis by blast
  qed
  then obtain r' where r': "fst (send_command ?w0 ''session.new'' ?caps) = Inr r'"
    and f: "\<not> truthy r'" by blast
  have en: "session_enter ?w0 = (Inl AssertionError, snd (send_command ?w0 ''session.new'' ?caps))"
    using r' f
    by (cases "send_command ?w0 ''session.new'' ?caps")
      (auto simp add: session_enter_def session_new_def)
  have t: "ws_trace (snd (send_command ?w0 ''session.new'' ?caps)) =
      [Connect (endpoint port), Send (make_command ''session.new'' ?caps)]"
    using send_command_trace [OF o] by (simp add: connect_def)
  show "fst (execute net port method params) = Inl AssertionError"
    using assms en by (simp add: execute_def)
  show "ws_trace (snd (execute net port method params)) =
      [Connect (endpoint port), Send (make_command ''session.new'' ?caps), Close]"
    using assms en t by (simp add: execute_def ws_close_def)
next
  let ?w0 = "connect (endpoint port) frames"
  let ?caps = "JObj [(''capabilities'', JObj [])]"
  let ?w2 = "snd (session_call wn method params)"
  assume a: "session_enter ?w0 = (Inr (), wn)
       \<and> ((ws_inbound wn = f # Frame_json (JObj env) # rest
             \<and> map_of env ''type'' = Some (JStr ''error'')
             \<and> map_of env ''error'' = Some k \<and> map_of env ''message'' = Some msg)
           \<or> fst (send_command ?w2 ''session.end'' (JObj [])) = Inr JNull)"
  then have en: "session_enter ?w0 = (Inr (), wn)" by simp
  have o1: "\<not> ws_closed wn" using session_enter_ok(1) [OF en] .
  have t1: "ws_trace wn = [Connect (endpoint port), Send (make_command ''session.new'' ?caps)]"
    using session_enter_ok(4) [OF en] by (simp add: connect_def)
  have t2: "ws_trace ?w2 = ws_trace wn @ [Send (make_command method params)]"
    using send_command_trace [OF o1] by (simp add: session_call_def)
  have n: "fst (send_command ?w2 ''session.end'' (JObj [])) = Inr JNull"
  proof (rule disjE [OF conjunct2 [OF a]])
    assume e: "ws_inbound wn = f # Frame_json (JObj env) # rest
             \<and> map_of env ''type'' = Some (JStr ''error'')
             \<and> map_of env ''error'' = Some k \<and> map_of env ''message'' = Some msg"
    have o2: "\<not> ws_closed ?w2"
      using send_command_closed_after [OF o1] e by (simp add: session_call_def)
    have i2: "ws_inbound ?w2 = Frame_json (JObj env) # rest"
      using send_command_inbound [OF o1] e by (simp add: session_call_def)
    show ?thesis using send_command_error [OF o2 i2] e by simp
  next
    assume "fst (send_command ?w2 ''session.end'' (JObj [])) = Inr JNull"
    then show ?thesis .
  qed
  have o2: "\<not> ws_closed ?w2" using send_command_returns [OF n] by simp
  have ex: "session_exit ?w2 = (Inl AssertionError, snd (send_command ?w2 ''session.end'' (JObj [])))"
    using n
    by (cases "send_command ?w2 ''session.end'' (JObj [])")
      (auto simp add: session_exit_def session_end_def)
  have t3: "ws_trace (snd (send_command ?w2 ''session.end'' (JObj []))) =
      ws_trace ?w2 @ [Send (make_command ''session.end'' (JObj []))]"
    using send_command_trace [OF o2] .
  show "fst (execute net port method params) = Inl AssertionError"
    using assms en ex
    by (cases "session_call wn method params") (simp add: execute_def)
  show "ws_trace (snd (execute net port method params)) =
      [Connect (endpoint port), Send (make_command ''session.new'' ?caps),
       Send (make_command method params), Send (make_command ''session.end'' (JObj [])), Close]"
    using assms en ex t1 t2 t3
    by (cases "session_call wn method params") (simp add: execute_def ws_close_def)
qed

theorem lifecycle_failure_is_fatal_witness:
  "fst (execute (server [error_reply]) 9222 ''browsingContext.close''
          (JObj [(''context'', JStr ''ctx-1'')])) = Inl AssertionError
   \<and> ws_trace (snd (execute (server [error_reply]) 9222 ''browsingContext.close''
          (JObj [(''context'', JStr ''ctx-1'')]))) =
       [Connect (endpoint 9222),
        Send (make_command ''session.new'' (JObj [(''capabilities'', JObj [])])),
        Close]
   \<and> fst (execute (server [session_created, success_reply (JObj []), error_reply]) 9222
          ''browsingContext.close'' (JObj [(''context'', JStr ''ctx-1'')]))
       = Inl AssertionError
   \<and> ws_trace (snd (execute (server [session_created, success_reply (JObj []), error_reply])
          9222 ''browsingContext.close'' (JObj [(''context'', JStr ''ctx-1'')]))) =
       [Connect (endpoint 9222),
        Send (make_command ''session.new'' (JObj [(''capabilities'', JObj [])])),
        Send (make_command ''browsingContext.close'' (JObj [(''context'', JStr ''ctx-1'')])),
        Send (make_command ''session.end'' (JObj [])),
        Close]"
proof -
  let ?env = "[(''type'', JStr ''error''), (''error'', JStr ''no such frame''),
               (''message'', JStr ''context not found'')]"
  have e: "error_reply = Frame_json (JObj ?env)" by (simp add: error_reply_def)
  have a: "[error_reply] = Frame_json (JObj ?env) # []
      \<and> map_of ?env ''type'' = Some (JStr ''error'')
      \<and> map_of ?env ''error'' = Some (JStr ''no such frame'')
      \<and> map_of ?env ''message'' = Some (JStr ''context not found'')"
    using e by simp
  have b: "session_enter (connect (endpoint 9222)
             [session_created, success_reply (JObj []), error_reply])
           = (Inr (), entered [success_reply (JObj []), error_reply])
      \<and> (ws_inbound (entered [success_reply (JObj []), error_reply])
           = success_reply (JObj []) # Frame_json (JObj ?env) # []
          \<and> map_of ?env ''type'' = Some (JStr ''error'')
          \<and> map_of ?env ''error'' = Some (JStr ''no such frame'')
          \<and> map_of ?env ''message'' = Some (JStr ''context not found''))"
    using e by (simp add: scenario_enter entered_def)
  have new: "fst (execute (server [error_reply]) 9222 ''browsingContext.close''
          (JObj [(''context'', JStr ''ctx-1'')])) = Inl AssertionError
   \<and> ws_trace (snd (execute (server [error_reply]) 9222 ''browsingContext.close''
          (JObj [(''context'', JStr ''ctx-1'')]))) =
       [Connect (endpoint 9222),
        Send (make_command ''session.new'' (JObj [(''capabilities'', JObj [])])),
        Close]"
    by (rule lifecycle_failure_is_fatal [where net = "server [error_reply]"
      and frames = "[error_reply]" and env = ?env and rest = "[]"
      and k = "JStr ''no such frame''" and msg = "JStr ''context not found''",
      OF scenario_server, THEN conjunct1, rule_format, OF disjI1, OF a])
  have fin: "fst (execute (server [session_created, success_reply (JObj []), error_reply]) 9222
          ''browsingContext.close'' (JObj [(''context'', JStr ''ctx-1'')]))
       = Inl AssertionError
   \<and> ws_trace (snd (execute (server [session_created, success_reply (JObj []), error_reply])
          9222 ''browsingContext.close'' (JObj [(''context'', JStr ''ctx-1'')]))) =
       [Connect (endpoint 9222),
        Send (make_command ''session.new'' (JObj [(''capabilities'', JObj [])])),
        Send (make_command ''browsingContext.close'' (JObj [(''context'', JStr ''ctx-1'')])),
        Send (make_command ''session.end'' (JObj [])),
        Close]"
    by (rule lifecycle_failure_is_fatal
      [where net = "server [session_created, success_reply (JObj []), error_reply]"
      and frames = "[session_created, success_reply (JObj []), error_reply]"
      and env = ?env and rest = "[]" and f = "success_reply (JObj [])"
      and wn = "entered [success_reply (JObj []), error_reply]"
      and k = "JStr ''no such frame''" and msg = "JStr ''context not found''",
      OF scenario_server, THEN conjunct2, rule_format,
      OF conjI [OF conjunct1 [OF b] disjI1 [OF conjunct2 [OF b]]]])
  show ?thesis using new fin by simp
qed

section \<open>The sequence of transport events\<close>

text \<open>
  C5. As stated the claim fails: when the server answers \<open>session.new\<close> with an error
  envelope, the call opens the connection, sends \<open>session.new\<close> and closes; the requested
  method and \<open>session.end\<close> are never sent.
\<close>

theorem execute_failed_creation_trace:
  "ws_trace (snd (execute (server [error_reply, success_reply (JObj []), session_ended]) 9222
      ''browsingContext.close'' (JObj [(''context'', JStr ''ctx-1'')]))) =
     [Connect ''ws://localhost:9222/session'',
      Send (JObj [(''id'', JInt 1), (''method'', JStr ''session.new''),
                  (''params'', JObj [(''capabilities'', JObj [])])]),
      Close]"
  by (simp add: execute_def session_enter_def session_new_def send_command_def ws_send_def
      ws_recv_def ws_close_def make_command_def connect_def server_def endpoint_def
      str_int_def error_reply_def)

text \<open>
  C5, amended. A call whose connection opens, whose session is created and whose method
  is answered by some frame performs, in this order, exactly one connection open, one
  \<open>session.new\<close>, one send of the requested method, one \<open>session.end\<close> and one close,
  whatever the method's and the termination's outcomes. A call whose session creation
  fails opens, sends \<open>session.new\<close> and closes; a call whose connection is refused sends
  nothing. In every call the events are a connection open followed by a prefix of
  \<open>session.new\<close>, the method, \<open>session.end\<close>, and then, if the connection opened, one close.
\<close>

theorem execute_trace:
  "(net (endpoint port) = Some (f1 # f2 # rest)
      \<and> fst (session_enter (connect (endpoint port) (f1 # f2 # rest))) = Inr ()
     \<longrightarrow> ws_trace (snd (execute net port method params)) =
           [Connect (endpoint port),
            Send (make_command ''session.new'' (JObj [(''capabilities'', JObj [])])),
            Send (make_command method params),
            Send (make_command ''session.end'' (JObj [])),
            Close])
   \<and> (net (endpoint port) = Some frames
      \<and> fst (session_enter (connect (endpoint port) frames)) = Inl e
     \<longrightarrow> ws_trace (snd (execute net port method params)) =
           [Connect (endpoint port),
            Send (make_command ''session.new'' (JObj [(''capabilities'', JObj [])])),
            Close])
   \<and> (net (endpoint port) = None
     \<longrightarrow> ws_trace (snd (execute net port method params)) = [Connect (endpoint port)])
   \<and> ws_trace (snd (execute net port method params)) \<in>
       {[Connect (endpoint port)],
        [Connect (endpoint port),
         Send (make_command ''session.new'' (JObj [(''capabilities'', JObj [])])),
         Close],
        [Connect (endpoint port),
         Send (make_command ''session.new'' (JObj [(''capabilities'', JObj [])])),
         Send (make_command method params),
         Close],
        [Connect (endpoint port),
         Send (make_command ''session.new'' (JObj [(''capabilities'', JObj [])])),
         Send (make_command method params),
         Send (make_command ''session.end'' (JObj [])),
         Close]}"
proof -
  let ?u = "endpoint port"
  let ?new = "Send (make_command ''session.new'' (JObj [(''capabilities'', JObj [])]))"
  let ?m = "Send (make_command method params)"
  let ?end = "Send (make_command ''session.end'' (JObj []))"
  let ?t = "ws_trace (snd (execute net port method params))"
  have refused: "net ?u = None \<Longrightarrow> ?t = [Connect ?u]"
    by (rule execute_trace_refused)
  have failed: "?t = [Connect ?u, ?new, Close]"
    if "net ?u = Some fs" and "fst (session_enter (connect ?u fs)) = Inl x" for fs x
    using that by (rule execute_trace_failed)
  have full: "?t = [Connect ?u, ?new, ?m, ?end, Close]"
    if n: "net ?u = Some (f1 # f2 # rest)"
      and en: "fst (session_enter (connect ?u (f1 # f2 # rest))) = Inr ()"
  proof -
    obtain w where w: "session_enter (connect ?u (f1 # f2 # rest)) = (Inr (), w)"
      using en by (cases "session_enter (connect ?u (f1 # f2 # rest))") simp
    have "ws_inbound w = f2 # rest" using session_enter_ok(3) [OF w] by (simp add: connect_def)
    then show ?thesis using execute_trace_opened [where net = net, OF n w] by simp
  qed
  have any: "?t \<in> {[Connect ?u], [Connect ?u, ?new, Close], [Connect ?u, ?new, ?m, Close],
      [Connect ?u, ?new, ?m, ?end, Close]}"
  proof (cases "net ?u")
    case None
    then show ?thesis using refused by simp
  next
    case (Some fs)
    show ?thesis
    proof (cases "session_enter (connect ?u fs)")
      case (Pair r w)
      show ?thesis
      proof (cases r)
        case (Inl x)
        then show ?thesis using failed [OF Some, of x] Pair by simp
      next
        case (Inr v)
        then show ?thesis using execute_trace_opened [where net = net, OF Some, of w] Pair by simp
      qed
    qed
  qed
  show ?thesis using refused failed full any by blast
qed

theorem execute_trace_witness:
  "ws_trace (snd (execute (server [session_created, error_reply, session_ended]) 9222
      ''browsingContext.close'' (JObj [(''context'', JStr ''ctx-1'')]))) =
     [Connect (endpoint 9222),
      Send (make_command ''session.new'' (JObj [(''capabilities'', JObj [])])),
      Send (make_command ''browsingContext.close'' (JObj [(''context'', JStr ''ctx-1'')])),
      Send (make_command ''session.end'' (JObj [])),
      Close]
   \<and> ws_trace (snd (execute (server [Frame_empty]) 9222
      ''browsingContext.close'' (JObj [(''context'', JStr ''ctx-1'')]))) =
     [Connect (endpoint 9222),
      Send (make_command ''session.new'' (JObj [(''capabilities'', JObj [])])),
      Close]
   \<and> ws_trace (snd (execute (server [session_created]) 4444
      ''browsingContext.close'' (JObj [(''context'', JStr ''ctx-1'')]))) =
     [Connect (endpoint 4444)]"
proof -
  let ?m = "''browsingContext.close''"
  let ?p = "JObj [(''context'', JStr ''ctx-1'')]"
  have a: "server [session_created, error_reply, session_ended] (endpoint 9222)
             = Some (session_created # error_reply # [session_ended])
           \<and> fst (session_enter (connect (endpoint 9222)
                  (session_created # error_reply # [session_ended]))) = Inr ()"
    by (simp add: scenario_server scenario_enter)
  have b: "server [Frame_empty] (endpoint 9222) = Some [Frame_empty]
           \<and> fst (session_enter (connect (endpoint 9222) [Frame_empty])) = Inl AssertionError"
    by (simp add: scenario_server session_enter_def session_new_def send_command_def
        ws_send_def ws_recv_def connect_def)
  have c: "server [session_created] (endpoint 4444) = None"
    by (simp add: server_def endpoint_def str_int_def)
  have 1: "ws_trace (snd (execute (server [session_created, error_reply, session_ended]) 9222
             ?m ?p)) =
     [Connect (endpoint 9222),
      Send (make_command ''session.new'' (JObj [(''capabilities'', JObj [])])),
      Send (make_command ?m ?p), Send (make_command ''session.end'' (JObj [])), Close]"
    by (rule execute_trace [where net = "server [session_created, error_reply, session_ended]"
        and port = 9222 and ?f1.0 = session_created and ?f2.0 = error_reply
        and rest = "[session_ended]", THEN conjunct1, rule_format, OF a])
  have 2: "ws_trace (snd (execute (server [Frame_empty]) 9222 ?m ?p)) =
     [Connect (endpoint 9222),
      Send (make_command ''session.new'' (JObj [(''capabilities'', JObj [])])), Close]"
    by (rule execute_trace [where net = "server [Frame_empty]" and port = 9222
        and frames = "[Frame_empty]" and e = AssertionError,
        THEN conjunct2, THEN conjunct1, rule_format, OF b])
  have 3: "ws_trace (snd (execute (server [session_created]) 4444 ?m ?p)) =
     [Connect (endpoint 4444)]"
    by (rule execute_trace [where net = "server [session_created]" and port = 4444,
        THEN conjunct2, THEN conjunct2, THEN conjunct1, rule_format, OF c])
  show ?thesis using 1 2 3 by simp
qed

section \<open>The endpoint\<close>

text \<open>
  C4. As stated the claim fails: the caller of \<open>execute\<close> supplies a port and no host. A
  call with port 9222 connects to the local host, not to another host of that port.
\<close>

theorem execute_host_not_chosen:
  "connections (ws_trace (snd (execute
      (server [session_created, success_reply (JObj []), session_ended]) 9222
      ''browsingContext.close'' (JObj [(''context'', JStr ''ctx-1'')]))))
     = [''ws://localhost:9222/session'']
   \<and> ''ws://localhost:9222/session'' \<noteq> spec_endpoint ''example.org'' 9222"
  by (simp add: execute_def session_enter_def session_new_def session_call_def
      session_exit_def session_end_def send_command_def ws_send_def ws_recv_def ws_close_def
      connect_def server_def endpoint_def spec_endpoint_def str_int_def session_created_def
      session_ended_def success_reply_def)

text \<open>
  C4, amended. The port is the only configuration the caller of \<open>execute\<close> supplies; the
  host is fixed. Every call makes exactly one connection attempt, to
  \<open>ws://localhost:<port>/session\<close> with the caller's port, and depends on the network at
  no other URL.
\<close>

theorem execute_endpoint:
  "endpoint port = spec_endpoint ''localhost'' port
   \<and> connections (ws_trace (snd (execute net port method params)))
       = [spec_endpoint ''localhost'' port]
   \<and> execute net port method params =
       execute (\<lambda>u. if u = spec_endpoint ''localhost'' port then net u else None)
         port method params"
proof -
  have e: "endpoint port = spec_endpoint ''localhost'' port"
    by (simp add: endpoint_def spec_endpoint_def)
  have c: "connections (ws_trace (snd (execute net port method params))) = [endpoint port]"
  proof (cases "net (endpoint port)")
    case None
    then show ?thesis by (simp add: execute_trace_refused)
  next
    case (Some fs)
    show ?thesis
    proof (cases "session_enter (connect (endpoint port) fs)")
      case (Pair r w)
      show ?thesis
      proof (cases r)
        case (Inl x)
        then show ?thesis using execute_trace_failed [where net = net, OF Some, of x] Pair by simp
      next
        case (Inr v)
        then show ?thesis using execute_trace_opened [where net = net, OF Some, of w] Pair by simp
      qed
    qed
  qed
  have d: "execute net port method params =
       execute (\<lambda>u. if u = endpoint port then net u else None) port method params"
    by (simp add: execute_def)
  show ?thesis using c d unfolding e by simp
qed

section \<open>Tabs and the browser\<close>

text \<open>
  C8. In a session that is created and ended without failure, when the server answers
  \<open>browsingContext.create\<close> with \<open>{"type": "success", "result": {"context": "ctx-1"}}\<close>,
  \<open>execute\<close> returns a result whose \<open>context\<close> is \<open>ctx-1\<close> and \<open>Browser.create_tab\<close> yields
  a tab with that id, the browser's port and an empty url; and when the server answers
  the \<open>browsingContext.navigate\<close> of a tab with
  \<open>{"type": "success", "result": {"url": "https://example.com"}}\<close>, \<open>Tab.navigate\<close> returns
  \<open>True\<close> and leaves the tab with the url \<open>https://example.com\<close>, its other fields as
  they were.
\<close>

theorem create_tab_and_navigate:
  assumes "net (endpoint (browser_port b)) = Some frames"
    and "session_enter (connect (endpoint (browser_port b)) frames) = (Inr (), w)"
    and "ws_inbound w =
           Frame_json (JObj [(''type'', JStr ''success''),
                             (''result'', JObj [(''context'', JStr ''ctx-1'')])]) # rest"
    and "fst (session_exit (snd (session_call w ''browsingContext.create''
           (JObj [(''type'', JStr ''tab'')])))) = Inr ()"
    and "net' (endpoint (tab_port t)) = Some frames'"
    and "session_enter (connect (endpoint (tab_port t)) frames') = (Inr (), w')"
    and "ws_inbound w' =
           Frame_json (JObj [(''type'', JStr ''success''),
                             (''result'', JObj [(''url'', JStr ''https://example.com'')])])
           # rest'"
    and "fst (session_exit (snd (session_call w' ''browsingContext.navigate''
           (JObj [(''url'', JStr url), (''context'', tab_id t),
                  (''wait'', JStr ''complete'')])))) = Inr ()"
  shows "fst (execute net (browser_port b) ''browsingContext.create''
               (JObj [(''type'', JStr ''tab'')]))
           = Inr (JObj [(''context'', JStr ''ctx-1'')])
    \<and> py_getitem (JObj [(''context'', JStr ''ctx-1'')]) ''context'' = Inr (JStr ''ctx-1'')
    \<and> create_tab net b =
          Inr (Some \<lparr>tab_port = browser_port b, tab_id = JStr ''ctx-1'', tab_url = JStr []\<rparr>)
    \<and> navigate net' t url = (Inr True, t\<lparr>tab_url := JStr ''https://example.com''\<rparr>)"
proof -
  have "\<not> ws_closed w" using session_enter_ok(1) [OF assms(2)] .
  then have "fst (session_call w ''browsingContext.create'' (JObj [(''type'', JStr ''tab'')]))
      = Inr (JObj [(''context'', JStr ''ctx-1'')])"
    using assms(3) by (simp add: session_call_def send_command_success)
  then have c: "fst (execute net (browser_port b) ''browsingContext.create''
      (JObj [(''type'', JStr ''tab'')])) = Inr (JObj [(''context'', JStr ''ctx-1'')])"
    using execute_in_session(1) [where net = net, OF assms(1,2,4)] by simp
  have "\<not> ws_closed w'" using session_enter_ok(1) [OF assms(6)] .
  then have "fst (session_call w' ''browsingContext.navigate''
      (JObj [(''url'', JStr url), (''context'', tab_id t), (''wait'', JStr ''complete'')]))
      = Inr (JObj [(''url'', JStr ''https://example.com'')])"
    using assms(7) by (simp add: session_call_def send_command_success)
  then have n: "fst (execute net' (tab_port t) ''browsingContext.navigate''
      (JObj [(''url'', JStr url), (''context'', tab_id t), (''wait'', JStr ''complete'')]))
      = Inr (JObj [(''url'', JStr ''https://example.com'')])"
    using execute_in_session(1) [where net = net', OF assms(5,6,8)] by simp
  show ?thesis using c n by (simp add: create_tab_def navigate_def)
qed

theorem create_tab_and_navigate_witness:
  "create_tab
     (server [session_created, success_reply (JObj [(''context'', JStr ''ctx-1'')]),
              session_ended])
     \<lparr>browser_port = 9222\<rparr>
   = Inr (Some \<lparr>tab_port = 9222, tab_id = JStr ''ctx-1'', tab_url = JStr []\<rparr>)
   \<and> navigate
     (server [session_created, success_reply (JObj [(''url'', JStr ''https://example.com'')]),
              session_ended])
     \<lparr>tab_port = 9222, tab_id = JStr ''ctx-1'', tab_url = JStr []\<rparr> ''https://example.com''
   = (Inr True,
      \<lparr>tab_port = 9222, tab_id = JStr ''ctx-1'', tab_url = JStr ''https://example.com''\<rparr>)"
proof -
  let ?c = "success_reply (JObj [(''context'', JStr ''ctx-1'')])"
  let ?n = "success_reply (JObj [(''url'', JStr ''https://example.com'')])"
  let ?b = "\<lparr>browser_port = 9222\<rparr>"
  let ?t = "\<lparr>tab_port = 9222, tab_id = JStr ''ctx-1'', tab_url = JStr []\<rparr>"
  have h1: "server [session_created, ?c, session_ended] (endpoint (browser_port ?b))
      = Some [session_created, ?c, session_ended]"
    by (simp add: scenario_server)
  have h2: "session_enter (connect (endpoint (browser_port ?b))
      [session_created, ?c, session_ended]) = (Inr (), entered [?c, session_ended])"
    by (simp add: scenario_enter)
  have h3: "ws_inbound (entered [?c, session_ended]) =
      Frame_json (JObj [(''type'', JStr ''success''),
                        (''result'', JObj [(''context'', JStr ''ctx-1'')])]) # [session_ended]"
    by (simp add: entered_def success_reply_def)
  have h5: "server [session_created, ?n, session_ended] (endpoint (tab_port ?t))
      = Some [session_created, ?n, session_ended]"
    by (simp add: scenario_server)
  have h6: "session_enter (connect (endpoint (tab_port ?t))
      [session_created, ?n, session_ended]) = (Inr (), entered [?n, session_ended])"
    by (simp add: scenario_enter)
  have h7: "ws_inbound (entered [?n, session_ended]) =
      Frame_json (JObj [(''type'', JStr ''success''),
                        (''result'', JObj [(''url'', JStr ''https://example.com'')])])
      # [session_ended]"
    by (simp add: entered_def success_reply_def)
  show ?thesis
    using create_tab_and_navigate [where net = "server [session_created, ?c, session_ended]"
        and net' = "server [session_created, ?n, session_ended]" and b = ?b and t = ?t
        and url = "''https://example.com''",
        OF h1 h2 h3 scenario_exit h5 h6 h7 scenario_exit]
    by simp
qed

text \<open>
  C9. Whenever \<open>execute\<close> returns \<open>None\<close> to \<open>Tab.navigate\<close> or to \<open>Tab.reload\<close>, the method
  returns \<open>False\<close> and the tab is as it was, in every field. Whatever the reply, the tab
  after the call differs from the tab before only when the method returns \<open>True\<close>, and
  then only in its url, which is the \<open>url\<close> of the non-empty result \<open>execute\<close> returned.
\<close>

theorem tab_changes_only_on_success:
  "(fst (execute net (tab_port t) ''browsingContext.navigate''
          (JObj [(''url'', JStr url), (''context'', tab_id t), (''wait'', JStr ''complete'')]))
      = Inr JNull
     \<longrightarrow> navigate net t url = (Inr False, t))
   \<and> (fst (execute net (tab_port t) ''browsingContext.reload''
          (JObj [(''context'', tab_id t), (''wait'', JStr ''complete'')]))
      = Inr JNull
     \<longrightarrow> reload net t = (Inr False, t))
   \<and> (navigate net t url = (r, t')
     \<longrightarrow> (r \<noteq> Inr True \<and> t' = t)
        \<or> (r = Inr True
           \<and> (\<exists>result v.
                 fst (execute net (tab_port t) ''browsingContext.navigate''
                        (JObj [(''url'', JStr url), (''context'', tab_id t),
                               (''wait'', JStr ''complete'')])) = Inr result
                 \<and> truthy result \<and> py_getitem result ''url'' = Inr v
                 \<and> t' = t\<lparr>tab_url := v\<rparr>)))
   \<and> (reload net t = (r, t')
     \<longrightarrow> (r \<noteq> Inr True \<and> t' = t)
        \<or> (r = Inr True
           \<and> (\<exists>result v.
                 fst (execute net (tab_port t) ''browsingContext.reload''
                        (JObj [(''context'', tab_id t), (''wait'', JStr ''complete'')]))
                   = Inr result
                 \<and> truthy result \<and> py_getitem result ''url'' = Inr v
                 \<and> t' = t\<lparr>tab_url := v\<rparr>)))"
proof (intro conjI impI)
  assume "fst (execute net (tab_port t) ''browsingContext.navigate''
          (JObj [(''url'', JStr url), (''context'', tab_id t), (''wait'', JStr ''complete'')]))
      = Inr JNull"
  then show "navigate net t url = (Inr False, t)" by (simp add: navigate_def)
next
  assume "fst (execute net (tab_port t) ''browsingContext.reload''
          (JObj [(''context'', tab_id t), (''wait'', JStr ''complete'')])) = Inr JNull"
  then show "reload net t = (Inr False, t)" by (simp add: reload_def)
next
  assume "navigate net t url = (r, t')"
  then show "(r \<noteq> Inr True \<and> t' = t)
        \<or> (r = Inr True
           \<and> (\<exists>result v.
                 fst (execute net (tab_port t) ''browsingContext.navigate''
                        (JObj [(''url'', JStr url), (''context'', tab_id t),
                               (''wait'', JStr ''complete'')])) = Inr result
                 \<and> truthy result \<and> py_getitem result ''url'' = Inr v
                 \<and> t' = t\<lparr>tab_url := v\<rparr>))"
    by (auto simp add: navigate_def split: sum.splits if_splits)
next
  assume "reload net t = (r, t')"
  then show "(r \<noteq> Inr True \<and> t' = t)
        \<or> (r = Inr True
           \<and> (\<exists>result v.
                 fst (execute net (tab_port t) ''browsingContext.reload''
                        (JObj [(''context'', tab_id t), (''wait'', JStr ''complete'')]))
                   = Inr result
                 \<and> truthy result \<and> py_getitem result ''url'' = Inr v
                 \<and> t' = t\<lparr>tab_url := v\<rparr>))"
    by (auto simp add: reload_def split: sum.splits if_splits)
qed

theorem tab_changes_only_on_success_witness:
  "navigate (server [session_created, error_reply, session_ended])
     \<lparr>tab_port = 9222, tab_id = JStr ''ctx-1'', tab_url = JStr ''https://old''\<rparr> ''https://x''
   = (Inr False, \<lparr>tab_port = 9222, tab_id = JStr ''ctx-1'', tab_url = JStr ''https://old''\<rparr>)
   \<and> reload (server [session_created, Frame_empty, session_ended])
     \<lparr>tab_port = 9222, tab_id = JStr ''ctx-1'', tab_url = JStr ''https://old''\<rparr>
   = (Inr False, \<lparr>tab_port = 9222, tab_id = JStr ''ctx-1'', tab_url = JStr ''https://old''\<rparr>)
   \<and> (\<exists>result v.
        fst (execute
          (server [session_created, success_reply (JObj [(''url'', JStr ''https://x'')]),
                   session_ended])
          9222 ''browsingContext.navigate''
          (JObj [(''url'', JStr ''https://x''), (''context'', JStr ''ctx-1''),
                 (''wait'', JStr ''complete'')])) = Inr result
        \<and> truthy result \<and> py_getitem result ''url'' = Inr v \<and> v = JStr ''https://x'')
   \<and> (\<exists>result v.
        fst (execute
          (server [session_created, success_reply (JObj [(''url'', JStr ''https://old'')]),
                   session_ended])
          9222 ''browsingContext.reload''
          (JObj [(''context'', JStr ''ctx-1''), (''wait'', JStr ''complete'')])) = Inr result
        \<and> truthy result \<and> py_getitem result ''url'' = Inr v \<and> v = JStr ''https://old'')"
proof -
  let ?t = "\<lparr>tab_port = 9222, tab_id = JStr ''ctx-1'', tab_url = JStr ''https://old''\<rparr>"
  let ?err = "server [session_created, error_reply, session_ended]"
  let ?emp = "server [session_created, Frame_empty, session_ended]"
  let ?nav = "server [session_created, success_reply (JObj [(''url'', JStr ''https://x'')]),
                      session_ended]"
  let ?rel = "server [session_created, success_reply (JObj [(''url'', JStr ''https://old'')]),
                      session_ended]"
  note ev = execute_def session_enter_def session_new_def session_call_def session_exit_def
    session_end_def send_command_def ws_send_def ws_recv_def ws_close_def connect_def
    server_def endpoint_def str_int_def session_created_def session_ended_def
    error_reply_def success_reply_def
  have p1: "fst (execute ?err (tab_port ?t) ''browsingContext.navigate''
      (JObj [(''url'', JStr ''https://x''), (''context'', tab_id ?t),
             (''wait'', JStr ''complete'')])) = Inr JNull"
    by (simp add: ev)
  have p2: "fst (execute ?emp (tab_port ?t) ''browsingContext.reload''
      (JObj [(''context'', tab_id ?t), (''wait'', JStr ''complete'')])) = Inr JNull"
    by (simp add: ev)
  have p3: "navigate ?nav ?t ''https://x'' = (Inr True, ?t\<lparr>tab_url := JStr ''https://x''\<rparr>)"
    by (simp add: navigate_def ev)
  have p4: "reload ?rel ?t = (Inr True, ?t\<lparr>tab_url := JStr ''https://old''\<rparr>)"
    by (simp add: reload_def ev)
  have c1: "navigate ?err ?t ''https://x'' = (Inr False, ?t)"
    by (rule tab_changes_only_on_success [where net = ?err and t = ?t,
          THEN conjunct1, rule_format, OF p1])
  have c2: "reload ?emp ?t = (Inr False, ?t)"
    by (rule tab_changes_only_on_success [where net = ?emp and t = ?t,
          THEN conjunct2, THEN conjunct1, rule_format, OF p2])
  note c3 = tab_changes_only_on_success [where net = ?nav and t = ?t and url = "''https://x''",
          THEN conjunct2, THEN conjunct2, THEN conjunct1, rule_format, OF p3]
  note c4 = tab_changes_only_on_success [where net = ?rel and t = ?t,
          THEN conjunct2, THEN conjunct2, THEN conjunct2, rule_format, OF p4]
  show ?thesis using c1 c2 c3 c4 by simp
qed

text \<open>
  C10. \<open>Browser.get_tabs\<close> returns the empty list when \<open>execute\<close> returns \<open>None\<close> or an
  empty result. When \<open>execute\<close> returns a non-empty result whose \<open>contexts\<close> is a list of
  entries that each have a \<open>context\<close> and a \<open>url\<close>, it returns one tab per entry, in the
  order of the entries, each with the entry's context as id, the entry's url and the
  browser's port.
\<close>

theorem get_tabs_result:
  "(fst (execute net (browser_port b) ''browsingContext.getTree''
          (JObj [(''maxDepth'', JInt 1)])) = Inr response
      \<and> \<not> truthy response
     \<longrightarrow> get_tabs net b = Inr [])
   \<and> (fst (execute net (browser_port b) ''browsingContext.getTree''
          (JObj [(''maxDepth'', JInt 1)])) = Inr response
      \<and> truthy response
      \<and> py_getitem response ''contexts'' = Inr (JList cs)
      \<and> list_all (\<lambda>c. \<exists>i u. py_getitem c ''context'' = Inr i
                            \<and> py_getitem c ''url'' = Inr u) cs
     \<longrightarrow> (\<exists>tabs. get_tabs net b = Inr tabs
           \<and> length tabs = length cs
           \<and> list_all2 (\<lambda>c t. py_getitem c ''context'' = Inr (tab_id t)
                             \<and> py_getitem c ''url'' = Inr (tab_url t)
                             \<and> tab_port t = browser_port b) cs tabs))"
proof (intro conjI impI)
  assume "fst (execute net (browser_port b) ''browsingContext.getTree''
          (JObj [(''maxDepth'', JInt 1)])) = Inr response \<and> \<not> truthy response"
  then show "get_tabs net b = Inr []" by (simp add: get_tabs_def)
next
  assume a: "fst (execute net (browser_port b) ''browsingContext.getTree''
          (JObj [(''maxDepth'', JInt 1)])) = Inr response
      \<and> truthy response
      \<and> py_getitem response ''contexts'' = Inr (JList cs)
      \<and> list_all (\<lambda>c. \<exists>i u. py_getitem c ''context'' = Inr i
                            \<and> py_getitem c ''url'' = Inr u) cs"
  then have g: "get_tabs net b = tabs_of (browser_port b) cs" by (simp add: get_tabs_def)
  obtain tabs where t: "tabs_of (browser_port b) cs = Inr tabs"
    "list_all2 (\<lambda>c t. py_getitem c ''context'' = Inr (tab_id t)
                     \<and> py_getitem c ''url'' = Inr (tab_url t)
                     \<and> tab_port t = browser_port b) cs tabs"
    using tabs_of_complete [of cs "browser_port b"] a by blast
  have "length tabs = length cs" using t(2) by (simp add: list_all2_lengthD)
  then show "\<exists>tabs. get_tabs net b = Inr tabs
           \<and> length tabs = length cs
           \<and> list_all2 (\<lambda>c t. py_getitem c ''context'' = Inr (tab_id t)
                             \<and> py_getitem c ''url'' = Inr (tab_url t)
                             \<and> tab_port t = browser_port b) cs tabs"
    using g t by simp
qed

theorem get_tabs_result_witness:
  "get_tabs (server [session_created, error_reply, session_ended]) \<lparr>browser_port = 9222\<rparr>
     = Inr []
   \<and> get_tabs (server [session_created, success_reply (JObj []), session_ended])
       \<lparr>browser_port = 9222\<rparr> = Inr []
   \<and> get_tabs
       (server [session_created,
                success_reply (JObj [(''contexts'',
                  JList [JObj [(''context'', JStr ''ctx-1''), (''url'', JStr ''https://a''),
                               (''children'', JList [])],
                         JObj [(''context'', JStr ''ctx-2''), (''url'', JStr ''https://b'')]])]),
                session_ended])
       \<lparr>browser_port = 9222\<rparr>
     = Inr [\<lparr>tab_port = 9222, tab_id = JStr ''ctx-1'', tab_url = JStr ''https://a''\<rparr>,
            \<lparr>tab_port = 9222, tab_id = JStr ''ctx-2'', tab_url = JStr ''https://b''\<rparr>]"
proof -
  let ?b = "\<lparr>browser_port = 9222\<rparr>"
  let ?cs = "[JObj [(''context'', JStr ''ctx-1''), (''url'', JStr ''https://a''),
                    (''children'', JList [])],
              JObj [(''context'', JStr ''ctx-2''), (''url'', JStr ''https://b'')]]"
  let ?err = "server [session_created, error_reply, session_ended]"
  let ?emp = "server [session_created, success_reply (JObj []), session_ended]"
  let ?two = "server [session_created, success_reply (JObj [(''contexts'', JList ?cs)]),
                      session_ended]"
  note ev = execute_def session_enter_def session_new_def session_call_def session_exit_def
    session_end_def send_command_def ws_send_def ws_recv_def ws_close_def connect_def
    server_def endpoint_def str_int_def session_created_def session_ended_def
    error_reply_def success_reply_def
  have p1: "fst (execute ?err (browser_port ?b) ''browsingContext.getTree''
      (JObj [(''maxDepth'', JInt 1)])) = Inr JNull \<and> \<not> truthy JNull"
    by (simp add: ev)
  have p2: "fst (execute ?emp (browser_port ?b) ''browsingContext.getTree''
      (JObj [(''maxDepth'', JInt 1)])) = Inr (JObj []) \<and> \<not> truthy (JObj [])"
    by (simp add: ev)
  have p3: "fst (execute ?two (browser_port ?b) ''browsingContext.getTree''
      (JObj [(''maxDepth'', JInt 1)])) = Inr (JObj [(''contexts'', JList ?cs)])
      \<and> truthy (JObj [(''contexts'', JList ?cs)])
      \<and> py_getitem (JObj [(''contexts'', JList ?cs)]) ''contexts'' = Inr (JList ?cs)
      \<and> list_all (\<lambda>c. \<exists>i u. py_getitem c ''context'' = Inr i
                            \<and> py_getitem c ''url'' = Inr u) ?cs"
    by (simp add: ev)
  have c1: "get_tabs ?err ?b = Inr []"
    by (rule get_tabs_result [where net = ?err and b = ?b, THEN conjunct1, rule_format, OF p1])
  have c2: "get_tabs ?emp ?b = Inr []"
    by (rule get_tabs_result [where net = ?emp and b = ?b, THEN conjunct1, rule_format, OF p2])
  note c3 = get_tabs_result [where net = ?two and b = ?b, THEN conjunct2, rule_format, OF p3]
  have "get_tabs ?two ?b
     = Inr [\<lparr>tab_port = 9222, tab_id = JStr ''ctx-1'', tab_url = JStr ''https://a''\<rparr>,
            \<lparr>tab_port = 9222, tab_id = JStr ''ctx-2'', tab_url = JStr ''https://b''\<rparr>]"
    using c3 by (auto simp add: list_all2_Cons1)
  then show ?thesis using c1 c2 by simp
qed

end
